theory Spec2Isabelle
  imports Main
begin

section \<open>The chart release action (src/index.js)\<close>

text \<open>
  The action is one JavaScript module. Everything it does to the outside world goes
  through a collaborator (the git helper module, the GitHub client, the tool cache, the
  file system, the \<^verbatim>\<open>cr\<close> subprocess, the logger). The model makes each such call an
  \<open>event\<close> of a trace, in program order, and takes the collaborator's answer from an
  environment record. A rejected promise or a thrown exception is the left summand of
  the result, so every function returns its result together with the events it emitted.
\<close>

subsection \<open>Values\<close>

text \<open>
  A thrown value. The module only ever renders it in two ways (lines 234 and 235):
  by string interpolation, and by \<^verbatim>\<open>JSON.stringify(err.stack, null, 4)\<close>.
\<close>

datatype error = Thrown (errString: string) (errStackJson: string)

text \<open>
  The object \<^verbatim>\<open>yaml.load\<close> returns for a chart manifest, as destructured at line 70.
  Both fields are strings, as the chart format requires of a name and a version.
\<close>

record manifest =
  name :: string
  version :: string

text \<open>The object pushed at line 73: \<^verbatim>\<open>{ chart: name, version }\<close>.\<close>

record change =
  chart :: string
  version :: string

text \<open>
  The module level constants of lines 14 to 27. An environment variable is a string or
  \<^verbatim>\<open>undefined\<close>; an action input is a string, empty when it is not set.
\<close>

record config =
  work_dir :: "string option"
  git_ref :: string
  chart_repo_url :: string
  chart_dir_input :: string
  dry_run_input :: bool
  chart_releaser_version_input :: string
  owner :: string
  repo :: string

definition defaultChartReleaserVersion :: string where
  "defaultChartReleaserVersion = ''3.8.0''"

definition defaultChartDir :: string where
  "defaultChartDir = ''charts''"

definition defaultDryRun :: bool where
  "defaultDryRun = False"

text \<open>\<^verbatim>\<open>core.getInput('chart_dir') || defaultChartDir\<close>: the empty string is falsy.\<close>

definition chart_dir :: "config \<Rightarrow> string" where
  "chart_dir cfg = (if chart_dir_input cfg = [] then defaultChartDir else chart_dir_input cfg)"

definition dry_run :: "config \<Rightarrow> bool" where
  "dry_run cfg = (dry_run_input cfg \<or> defaultDryRun)"

text \<open>A string or \<^verbatim>\<open>undefined\<close> inside a template literal, and its truthiness.\<close>

definition js_str :: "string option \<Rightarrow> string" where
  "js_str v = (case v of None \<Rightarrow> ''undefined'' | Some s \<Rightarrow> s)"

definition falsy :: "string option \<Rightarrow> bool" where
  "falsy v = (case v of None \<Rightarrow> True | Some s \<Rightarrow> s = [])"

subsection \<open>String operations of the JavaScript library\<close>

text \<open>\<^verbatim>\<open>s.startsWith(p)\<close>.\<close>

definition startsWith :: "string \<Rightarrow> string \<Rightarrow> bool" where
  "startsWith s p = (take (length p) s = p)"

text \<open>\<^verbatim>\<open>s.split('/')\<close>: never empty, the empty string gives one empty segment.\<close>

fun split_slash :: "string \<Rightarrow> string list" where
  "split_slash [] = [[]]"
| "split_slash (c # cs) =
     (if c = CHR ''/'' then [] # split_slash cs
      else (case split_slash cs of
              [] \<Rightarrow> [[c]]
            | seg # segs \<Rightarrow> (c # seg) # segs))"

text \<open>\<^verbatim>\<open>xs.join(sep)\<close> on an array of strings.\<close>

fun join :: "string \<Rightarrow> string list \<Rightarrow> string" where
  "join sep [] = []"
| "join sep [x] = x"
| "join sep (x # y # ys) = x @ sep @ join sep (y # ys)"

subsection \<open>Events and collaborators\<close>

datatype event =
    Info string
  | Debug string
  | LogError string
  | SetFailed string
  | AddPath string
  | DownloadTool string
  | ExtractTar string string
  | CacheFile string string string string
  | RmRF string
  | MkdirP string
  | GetLatestChanges
  | ReadFile string
  | HasTag string
  | Request string string string
  | CreateTag string
  | Exec string "string list" "string option"

text \<open>
  The collaborators. \<open>git_*\<close> is the module \<^verbatim>\<open>./git\<close>; \<open>yaml_load_file p\<close> is
  \<^verbatim>\<open>yaml.load(fs.readFileSync(p))\<close> followed by the destructuring of line 70;
  \<open>octokit_request owner repo tag\<close> is the request of line 95, which returns or throws;
  \<open>exec_exec cmd args cwd\<close> gives the chunks handed to the two listeners, in order, and
  then returns or throws (a non-zero exit status throws).
\<close>

record env =
  git_getLatestChanges :: "error + string list"
  git_hasTag :: "string \<Rightarrow> error + bool"
  git_createTag :: "string \<Rightarrow> error + unit"
  path_resolve :: "string \<Rightarrow> string"
  yaml_load_file :: "string \<Rightarrow> error + manifest"
  octokit_request :: "string \<Rightarrow> string \<Rightarrow> string \<Rightarrow> error + unit"
  tc_downloadTool :: "string \<Rightarrow> error + string"
  tc_extractTar :: "string \<Rightarrow> string \<Rightarrow> error + string"
  tc_cacheFile :: "string \<Rightarrow> string \<Rightarrow> string \<Rightarrow> string \<Rightarrow> error + string"
  io_rmRF :: "string \<Rightarrow> error + unit"
  io_mkdirP :: "string \<Rightarrow> error + unit"
  exec_exec :: "string \<Rightarrow> string list \<Rightarrow> string option \<Rightarrow> string list \<times> (error + unit)"

type_synonym 'a io = "(error + 'a) \<times> event list"

definition return_io :: "'a \<Rightarrow> 'a io" where
  "return_io x = (Inr x, [])"

text \<open>Sequencing with \<^verbatim>\<open>await\<close>: a rejection skips the rest.\<close>

definition bind_io :: "'a io \<Rightarrow> ('a \<Rightarrow> 'b io) \<Rightarrow> 'b io" where
  "bind_io m f =
     (case fst m of
        Inl e \<Rightarrow> (Inl e, snd m)
      | Inr x \<Rightarrow> (fst (f x), snd m @ snd (f x)))"

definition emit :: "event \<Rightarrow> unit io" where
  "emit ev = (Inr (), [ev])"

definition call :: "event \<Rightarrow> error + 'a \<Rightarrow> 'a io" where
  "call ev r = (r, [ev])"

subsection \<open>The functions of the module\<close>

text \<open>Lines 33 to 39. The function is only invoked when the flag is off.\<close>

definition skipIfDryRun :: "config \<Rightarrow> unit io \<Rightarrow> unit io" where
  "skipIfDryRun cfg func =
     (if \<not> dry_run cfg then func
      else emit (Info ''Skipping due to dry_run''))"

text \<open>Lines 41 to 58.\<close>

definition chartReleaserVersion :: "config \<Rightarrow> string" where
  "chartReleaserVersion cfg =
     (if chart_releaser_version_input cfg = [] then defaultChartReleaserVersion
      else chart_releaser_version_input cfg)"

definition chartReleaserUrl :: "config \<Rightarrow> string" where
  "chartReleaserUrl cfg =
     ''https://github.com/helm/chart-releaser/releases/download/v''
       @ chartReleaserVersion cfg @ ''/chart-releaser_''
       @ chartReleaserVersion cfg @ ''_linux_amd64.tar.gz''"

definition fetchTools :: "config \<Rightarrow> env \<Rightarrow> unit io" where
  "fetchTools cfg env =
     bind_io (call (DownloadTool (chartReleaserUrl cfg))
                (tc_downloadTool env (chartReleaserUrl cfg)))
       (\<lambda>chartReleaserPath.
     bind_io (call (ExtractTar chartReleaserPath ''tools/chart-releaser'')
                (tc_extractTar env chartReleaserPath ''tools/chart-releaser''))
       (\<lambda>chartReleaserExtractedFolder.
     bind_io (call (CacheFile (chartReleaserExtractedFolder @ ''/cr'') ''cr'' ''cr''
                      (chartReleaserVersion cfg))
                (tc_cacheFile env (chartReleaserExtractedFolder @ ''/cr'') ''cr'' ''cr''
                      (chartReleaserVersion cfg)))
       (\<lambda>chartReleaserCachedPath. emit (AddPath chartReleaserCachedPath))))"

text \<open>Lines 60 to 62.\<close>

definition loadChart :: "env \<Rightarrow> string \<Rightarrow> manifest io" where
  "loadChart env path = call (ReadFile path) (yaml_load_file env path)"

text \<open>
  Lines 64 to 78. \<open>reduce_changes\<close> is the \<^verbatim>\<open>reduce\<close> with its accumulator \<open>changed\<close>;
  the destructuring \<^verbatim>\<open>[_, chart, ...relPath]\<close> leaves \<open>drop 2\<close> of the segments in
  \<open>relPath\<close>.
\<close>

fun reduce_changes :: "config \<Rightarrow> env \<Rightarrow> change list \<Rightarrow> string list \<Rightarrow> change list io" where
  "reduce_changes cfg env changed [] = return_io changed"
| "reduce_changes cfg env changed (path # paths) =
     (if startsWith path (chart_dir cfg) then
        (if join [] (drop 2 (split_slash path)) = ''Chart.yaml'' then
           bind_io (loadChart env (path_resolve env (js_str (work_dir cfg) @ ''/'' @ path)))
             (\<lambda>m. reduce_changes cfg env
                     (changed @ [\<lparr>chart = name m, version = manifest.version m\<rparr>]) paths)
         else reduce_changes cfg env changed paths)
      else reduce_changes cfg env changed paths)"

definition getChangedCharts :: "config \<Rightarrow> env \<Rightarrow> change list io" where
  "getChangedCharts cfg env =
     bind_io (call GetLatestChanges (git_getLatestChanges env))
       (\<lambda>changes. reduce_changes cfg env [] changes)"

text \<open>The template literal of lines 83, 108, 120, 201, 212 and 219.\<close>

definition versionTag :: "change \<Rightarrow> string" where
  "versionTag c = chart c @ ''-'' @ version c"

text \<open>Lines 80 to 91; \<open>tags\<close> is the array the loop pushes to.\<close>

fun neededTags_loop :: "env \<Rightarrow> change list \<Rightarrow> change list \<Rightarrow> change list io" where
  "neededTags_loop env tags [] = return_io tags"
| "neededTags_loop env tags (c # changes) =
     bind_io (call (HasTag (versionTag c)) (git_hasTag env (versionTag c)))
       (\<lambda>has.
          if has then
            bind_io (emit (Debug (''Skipping existing tag '' @ versionTag c)))
              (\<lambda>_. neededTags_loop env tags changes)
          else neededTags_loop env (tags @ [c]) changes)"

definition getNeededTags :: "env \<Rightarrow> change list \<Rightarrow> change list io" where
  "getNeededTags env changes = neededTags_loop env [] changes"

text \<open>Lines 93 to 103: the \<^verbatim>\<open>catch\<close> has no binding and no condition.\<close>

definition releaseExists :: "config \<Rightarrow> env \<Rightarrow> string \<Rightarrow> bool io" where
  "releaseExists cfg env tag =
     (case octokit_request env (owner cfg) (repo cfg) tag of
        Inl e \<Rightarrow> (Inr False, [Request (owner cfg) (repo cfg) tag])
      | Inr u \<Rightarrow> (Inr True, [Request (owner cfg) (repo cfg) tag]))"

text \<open>Lines 105 to 116.\<close>

fun neededBuilds_loop :: "config \<Rightarrow> env \<Rightarrow> change list \<Rightarrow> change list \<Rightarrow> change list io" where
  "neededBuilds_loop cfg env releases [] = return_io releases"
| "neededBuilds_loop cfg env releases (c # changes) =
     bind_io (releaseExists cfg env (versionTag c))
       (\<lambda>ex.
          if ex then
            bind_io (emit (Debug (''Skipping existing release '' @ versionTag c)))
              (\<lambda>_. neededBuilds_loop cfg env releases changes)
          else neededBuilds_loop cfg env (releases @ [c]) changes)"

definition getNeededBuilds :: "config \<Rightarrow> env \<Rightarrow> change list \<Rightarrow> change list io" where
  "getNeededBuilds cfg env changes = neededBuilds_loop cfg env [] changes"

text \<open>Lines 118 to 123.\<close>

fun createTags :: "env \<Rightarrow> change list \<Rightarrow> unit io" where
  "createTags env [] = return_io ()"
| "createTags env (t # tags) =
     bind_io (call (CreateTag (versionTag t)) (git_createTag env (versionTag t)))
       (\<lambda>_. createTags env tags)"

text \<open>
  A call of \<^verbatim>\<open>exec.exec\<close> with the options of lines 127 to 137: both listeners pass
  what they receive to \<^verbatim>\<open>core.debug\<close>.
\<close>

definition run_cr :: "config \<Rightarrow> env \<Rightarrow> string list \<Rightarrow> unit io" where
  "run_cr cfg env args =
     (snd (exec_exec env ''cr'' args (work_dir cfg)),
      Exec ''cr'' args (work_dir cfg)
        # map Debug (fst (exec_exec env ''cr'' args (work_dir cfg))))"

text \<open>Lines 125 to 144.\<close>

fun packageCharts :: "config \<Rightarrow> env \<Rightarrow> change list \<Rightarrow> unit io" where
  "packageCharts cfg env [] = return_io ()"
| "packageCharts cfg env (c # changes) =
     bind_io (run_cr cfg env [''package'', chart_dir cfg @ ''/'' @ chart c])
       (\<lambda>_. packageCharts cfg env changes)"

text \<open>Lines 146 to 163.\<close>

definition publishCharts :: "config \<Rightarrow> env \<Rightarrow> unit io" where
  "publishCharts cfg env =
     run_cr cfg env [''upload'', ''-o'', owner cfg, ''-r'', repo cfg, ''-c'', git_ref cfg]"

text \<open>Lines 165 to 182.\<close>

definition updateIndex :: "config \<Rightarrow> env \<Rightarrow> unit io" where
  "updateIndex cfg env =
     run_cr cfg env
       [''index'', ''-o'', owner cfg, ''-r'', repo cfg, ''-c'', chart_repo_url cfg, ''--push'']"

text \<open>Lines 184 to 229, in three parts: the preparation, the tag step, the build step.\<close>

definition prepare :: "config \<Rightarrow> env \<Rightarrow> unit io" where
  "prepare cfg env =
     bind_io (call (RmRF (js_str (work_dir cfg) @ ''/.cr-release-packages''))
                (io_rmRF env (js_str (work_dir cfg) @ ''/.cr-release-packages'')))
       (\<lambda>_.
     bind_io (call (MkdirP (js_str (work_dir cfg) @ ''/.cr-release-packages''))
                (io_mkdirP env (js_str (work_dir cfg) @ ''/.cr-release-packages'')))
       (\<lambda>_.
     bind_io (call (RmRF (js_str (work_dir cfg) @ ''/.cr-index''))
                (io_rmRF env (js_str (work_dir cfg) @ ''/.cr-index'')))
       (\<lambda>_.
     call (MkdirP (js_str (work_dir cfg) @ ''/.cr-index''))
       (io_mkdirP env (js_str (work_dir cfg) @ ''/.cr-index'')))))"

definition tagStep :: "config \<Rightarrow> env \<Rightarrow> change list \<Rightarrow> unit io" where
  "tagStep cfg env neededTags =
     (if neededTags \<noteq> [] then
        bind_io (emit (Info (''Creating tags: '' @ join '', '' (map versionTag neededTags))))
          (\<lambda>_. skipIfDryRun cfg (createTags env neededTags))
      else emit (Info ''No tags to create''))"

definition buildStep :: "config \<Rightarrow> env \<Rightarrow> change list \<Rightarrow> unit io" where
  "buildStep cfg env neededBuilds =
     (if neededBuilds \<noteq> [] then
        bind_io (emit (Info (''Packaging charts: '' @ join '', '' (map versionTag neededBuilds))))
          (\<lambda>_.
        bind_io (skipIfDryRun cfg (packageCharts cfg env neededBuilds))
          (\<lambda>_.
        bind_io (emit (Info (''Publishing charts: '' @ join '', '' (map versionTag neededBuilds))))
          (\<lambda>_.
        bind_io (skipIfDryRun cfg (publishCharts cfg env))
          (\<lambda>_.
        bind_io (emit (Info ''Generating chart repo index''))
          (\<lambda>_. skipIfDryRun cfg (updateIndex cfg env))))))
      else emit (Info ''Nothing to build''))"

definition main :: "config \<Rightarrow> env \<Rightarrow> unit io" where
  "main cfg env =
     bind_io (fetchTools cfg env)
       (\<lambda>_.
     bind_io (prepare cfg env)
       (\<lambda>_.
     bind_io (getChangedCharts cfg env)
       (\<lambda>changes.
     bind_io (getNeededTags env changes)
       (\<lambda>neededTags.
     bind_io (getNeededBuilds cfg env changes)
       (\<lambda>neededBuilds.
     bind_io (tagStep cfg env neededTags)
       (\<lambda>_. buildStep cfg env neededBuilds))))))"

text \<open>
  The module body: the check of lines 29 to 31, which reports and goes on, then the call
  of \<open>main\<close> with its two continuations (lines 231 to 236). The result is the whole trace
  of the run.
\<close>

definition run :: "config \<Rightarrow> env \<Rightarrow> event list" where
  "run cfg env =
     (if falsy (work_dir cfg) then [SetFailed ''Unable to locate workspace!''] else [])
     @ snd (main cfg env)
     @ (case fst (main cfg env) of
          Inr u \<Rightarrow> [Info ''Action Completed Successfully'']
        | Inl err \<Rightarrow>
            [LogError (errStackJson err),
             SetFailed (''Error during action execution! '' @ errString err)])"

subsection \<open>Observations on a trace\<close>

text \<open>
  The calls that change the repository or the release platform: the tag creator and the
  three invocations of \<^verbatim>\<open>cr\<close> (package, upload, index).
\<close>

fun is_mutation :: "event \<Rightarrow> bool" where
  "is_mutation (CreateTag t) = True"
| "is_mutation (Exec c a d) = True"
| "is_mutation ev = False"

text \<open>The existence queries of the two reconcilers.\<close>

fun is_query :: "event \<Rightarrow> bool" where
  "is_query (HasTag t) = True"
| "is_query (Request ow r t) = True"
| "is_query ev = False"

text \<open>\<^verbatim>\<open>core.setFailed\<close> sets the exit code of the process to 1.\<close>

fun is_failure :: "event \<Rightarrow> bool" where
  "is_failure (SetFailed msg) = True"
| "is_failure ev = False"

text \<open>The two tests of lines 67 and 69 together.\<close>

definition selects :: "config \<Rightarrow> string \<Rightarrow> bool" where
  "selects cfg path =
     (startsWith path (chart_dir cfg) \<and> join [] (drop 2 (split_slash path)) = ''Chart.yaml'')"

text \<open>The file a selected path is read from (line 71).\<close>

definition manifestFile :: "config \<Rightarrow> env \<Rightarrow> string \<Rightarrow> string" where
  "manifestFile cfg env path = path_resolve env (js_str (work_dir cfg) @ ''/'' @ path)"

subsection \<open>Sample configurations and collaborators\<close>

definition notFound :: error where
  "notFound = Thrown ''HttpError: Not Found'' ''HttpError: Not Found at fetch''"

definition badYaml :: error where
  "badYaml = Thrown ''YAMLException: bad indentation'' ''YAMLException at load''"

text \<open>
  Collaborators that all succeed: the changed paths, the manifest reader, the tags and
  the releases that exist are given.
\<close>

definition sample_env ::
  "string list \<Rightarrow> (string \<Rightarrow> error + manifest) \<Rightarrow> (string \<Rightarrow> bool) \<Rightarrow> (string \<Rightarrow> bool) \<Rightarrow> env" where
  "sample_env paths load tagged released =
     \<lparr>git_getLatestChanges = Inr paths,
      git_hasTag = (\<lambda>t. Inr (tagged t)),
      git_createTag = (\<lambda>t. Inr ()),
      path_resolve = (\<lambda>p. p),
      yaml_load_file = load,
      octokit_request = (\<lambda>ow r t. if released t then Inr () else Inl notFound),
      tc_downloadTool = (\<lambda>u. Inr ''/tmp/cr.tgz''),
      tc_extractTar = (\<lambda>p d. Inr d),
      tc_cacheFile = (\<lambda>f t n v. Inr ''/opt/cr''),
      io_rmRF = (\<lambda>p. Inr ()),
      io_mkdirP = (\<lambda>p. Inr ()),
      exec_exec = (\<lambda>c a d. ([], Inr ()))\<rparr>"

definition sample_cfg :: "string option \<Rightarrow> bool \<Rightarrow> config" where
  "sample_cfg wd dry =
     \<lparr>work_dir = wd,
      git_ref = ''abc123'',
      chart_repo_url = ''https://example.org/charts'',
      chart_dir_input = [],
      dry_run_input = dry,
      chart_releaser_version_input = [],
      owner = ''acme'',
      repo = ''charts''\<rparr>"

definition foo_1_2_0 :: change where
  "foo_1_2_0 = \<lparr>chart = ''foo'', version = ''1.2.0''\<rparr>"

text \<open>Two records that differ in both fields and have the same version tag.\<close>

definition rec_foo :: change where
  "rec_foo = \<lparr>chart = ''foo'', version = ''1-0.0''\<rparr>"

definition rec_foo_1 :: change where
  "rec_foo_1 = \<lparr>chart = ''foo-1'', version = ''0.0''\<rparr>"

section \<open>Properties\<close>

subsection \<open>Sequencing\<close>

lemma fst_bind_io:
  "fst (bind_io m f) = (case fst m of Inl e \<Rightarrow> Inl e | Inr x \<Rightarrow> fst (f x))"
  by (simp add: bind_io_def split: sum.splits)

lemma snd_bind_io:
  "snd (bind_io m f) = snd m @ (case fst m of Inl e \<Rightarrow> [] | Inr x \<Rightarrow> snd (f x))"
  by (simp add: bind_io_def split: sum.splits)

lemma bind_io_pair_Inr [simp]: "bind_io (Inr x, tr) f = (fst (f x), tr @ snd (f x))"
  by (simp add: bind_io_def)

lemma bind_io_pair_Inl [simp]: "bind_io (Inl e, tr) f = (Inl e, tr)"
  by (simp add: bind_io_def)

lemma bind_io_Inr: "fst m = Inr x \<Longrightarrow> bind_io m f = (fst (f x), snd m @ snd (f x))"
  by (simp add: bind_io_def)

lemma bind_io_Inl: "fst m = Inl e \<Longrightarrow> bind_io m f = (Inl e, snd m)"
  by (simp add: bind_io_def)

lemma filter_bind_io:
  "filter P (snd (bind_io m f)) =
     filter P (snd m) @ (case fst m of Inl e \<Rightarrow> [] | Inr x \<Rightarrow> filter P (snd (f x)))"
  by (simp add: snd_bind_io split: sum.splits)

lemma filter_bind_io_Nil:
  assumes "filter P (snd m) = []" and "\<And>x. fst m = Inr x \<Longrightarrow> filter P (snd (f x)) = []"
  shows "filter P (snd (bind_io m f)) = []"
  unfolding filter_bind_io using assms by (simp split: sum.splits)

subsection \<open>The two reconcilers\<close>

lemma neededTags_loop_filter:
  "list_all (\<lambda>c. git_hasTag env (versionTag c) = Inr (ex (versionTag c))) changes \<Longrightarrow>
   neededTags_loop env tags changes =
     (Inr (tags @ filter (\<lambda>c. \<not> ex (versionTag c)) changes),
      concat (map (\<lambda>c. HasTag (versionTag c) #
                (if ex (versionTag c) then [Debug (''Skipping existing tag '' @ versionTag c)]
                 else [])) changes))"
  by (induction changes arbitrary: tags) (simp_all add: return_io_def call_def emit_def)

lemma neededBuilds_loop_filter:
  "neededBuilds_loop cfg env rel changes =
     (Inr (rel @ filter (\<lambda>c. isl (octokit_request env (owner cfg) (repo cfg) (versionTag c))) changes),
      concat (map (\<lambda>c. Request (owner cfg) (repo cfg) (versionTag c) #
                (if isl (octokit_request env (owner cfg) (repo cfg) (versionTag c)) then []
                 else [Debug (''Skipping existing release '' @ versionTag c)])) changes))"
  by (induction changes arbitrary: rel)
     (simp_all add: return_io_def emit_def releaseExists_def split: sum.splits)

lemma neededTags_loop_quiet:
  "filter is_mutation (snd (neededTags_loop env tags changes)) = []"
proof (induction changes arbitrary: tags)
  case Nil
  show ?case by (simp add: return_io_def)
next
  case (Cons c changes)
  show ?case
    by (simp add: Cons.IH filter_bind_io call_def emit_def split: sum.splits)
qed

lemma getNeededTags_quiet: "filter is_mutation (snd (getNeededTags env changes)) = []"
  by (simp add: getNeededTags_def neededTags_loop_quiet)

lemma getNeededBuilds_quiet:
  "filter is_mutation (snd (getNeededBuilds cfg env changes)) = []"
  by (simp add: getNeededBuilds_def neededBuilds_loop_filter filter_concat comp_def)

lemma fst_getNeededBuilds:
  "fst (getNeededBuilds cfg env changes) =
     Inr (filter (\<lambda>c. isl (octokit_request env (owner cfg) (repo cfg) (versionTag c))) changes)"
  by (simp add: getNeededBuilds_def neededBuilds_loop_filter)

subsection \<open>Steps that never create a tag and never run the release tool\<close>

lemma fetchTools_quiet: "filter is_mutation (snd (fetchTools cfg env)) = []"
  by (simp add: fetchTools_def filter_bind_io call_def emit_def split: sum.splits)

lemma prepare_quiet: "filter is_mutation (snd (prepare cfg env)) = []"
  by (simp add: prepare_def filter_bind_io call_def split: sum.splits)

lemma reduce_changes_quiet:
  "filter is_mutation (snd (reduce_changes cfg env changed paths)) = []"
proof (induction paths arbitrary: changed)
  case Nil
  show ?case by (simp add: return_io_def)
next
  case (Cons path paths)
  show ?case
    by (simp add: Cons.IH filter_bind_io loadChart_def call_def split: sum.splits)
qed

lemma getChangedCharts_quiet: "filter is_mutation (snd (getChangedCharts cfg env)) = []"
  by (simp add: getChangedCharts_def filter_bind_io call_def reduce_changes_quiet
           split: sum.splits)

lemma tagStep_Nil: "tagStep cfg env [] = (Inr (), [Info ''No tags to create''])"
  by (simp add: tagStep_def emit_def)

lemma buildStep_Nil: "buildStep cfg env [] = (Inr (), [Info ''Nothing to build''])"
  by (simp add: buildStep_def emit_def)

lemma tagStep_dry:
  "dry_run cfg \<Longrightarrow> tagStep cfg env nt =
     (Inr (),
      if nt \<noteq> [] then
        [Info (''Creating tags: '' @ join '', '' (map versionTag nt)),
         Info ''Skipping due to dry_run'']
      else [Info ''No tags to create''])"
  by (simp add: tagStep_def skipIfDryRun_def emit_def)

lemma buildStep_dry:
  "dry_run cfg \<Longrightarrow> buildStep cfg env nb =
     (Inr (),
      if nb \<noteq> [] then
        [Info (''Packaging charts: '' @ join '', '' (map versionTag nb)),
         Info ''Skipping due to dry_run'',
         Info (''Publishing charts: '' @ join '', '' (map versionTag nb)),
         Info ''Skipping due to dry_run'',
         Info ''Generating chart repo index'',
         Info ''Skipping due to dry_run'']
      else [Info ''Nothing to build''])"
  by (simp add: buildStep_def skipIfDryRun_def emit_def)

text \<open>
  The trace of \<open>main\<close> is the trace of the read-only part followed by the traces of the
  two steps, which only run when every earlier call returned.
\<close>

lemma main_quiet_if:
  assumes "\<And>changes nt nb.
             fst (getChangedCharts cfg env) = Inr changes \<Longrightarrow>
             fst (getNeededTags env changes) = Inr nt \<Longrightarrow>
             fst (getNeededBuilds cfg env changes) = Inr nb \<Longrightarrow>
             filter is_mutation (snd (tagStep cfg env nt)) = [] \<and>
             filter is_mutation (snd (buildStep cfg env nb)) = []"
  shows "filter is_mutation (snd (main cfg env)) = []"
  unfolding main_def
  by (intro filter_bind_io_Nil fetchTools_quiet prepare_quiet getChangedCharts_quiet
        getNeededTags_quiet getNeededBuilds_quiet)
     (use assms in blast)+

lemma filter_run:
  "filter is_mutation (run cfg env) = filter is_mutation (snd (main cfg env))"
  by (simp add: run_def split: sum.splits)

subsection \<open>Claims on the reconcilers\<close>

text \<open>
  C1. Idempotence of the pipeline: when the tag oracle and the release oracle report the
  version tag of every record of the change set as existing (the state one complete run
  without failure leaves behind), \<open>getNeededTags\<close> and \<open>getNeededBuilds\<close> both return the
  empty list, and the run creates no tag and invokes neither packaging, publishing nor
  indexing.
\<close>

theorem C1_second_run_needs_nothing:
  assumes "fst (getChangedCharts cfg env) = Inr changes"
    and "list_all (\<lambda>c. git_hasTag env (versionTag c) = Inr True) changes"
    and "list_all (\<lambda>c. octokit_request env (owner cfg) (repo cfg) (versionTag c) = Inr ()) changes"
  shows "fst (getNeededTags env changes) = Inr [] \<and>
         fst (getNeededBuilds cfg env changes) = Inr [] \<and>
         filter is_mutation (snd (main cfg env)) = [] \<and>
         filter is_mutation (run cfg env) = []"
proof -
  have tags: "fst (getNeededTags env changes) = Inr []"
    using neededTags_loop_filter [where ex = "\<lambda>t. True" and env = env and changes = changes and tags = "[]"] assms(2)
    by (simp add: getNeededTags_def)
  have "filter (\<lambda>c. isl (octokit_request env (owner cfg) (repo cfg) (versionTag c))) changes = []"
    using assms(3) by (induction changes) simp_all
  then have builds: "fst (getNeededBuilds cfg env changes) = Inr []"
    by (simp add: fst_getNeededBuilds)
  have quiet: "filter is_mutation (snd (main cfg env)) = []"
  proof (rule main_quiet_if)
    fix changes' nt nb
    assume "fst (getChangedCharts cfg env) = Inr changes'"
      and nt: "fst (getNeededTags env changes') = Inr nt"
      and nb: "fst (getNeededBuilds cfg env changes') = Inr nb"
    with assms(1) have "changes' = changes" by simp
    with nt nb tags builds have "nt = []" and "nb = []" by simp_all
    then show "filter is_mutation (snd (tagStep cfg env nt)) = [] \<and>
               filter is_mutation (snd (buildStep cfg env nb)) = []"
      by (simp add: tagStep_Nil buildStep_Nil)
  qed
  from tags builds quiet show ?thesis by (simp add: filter_run)
qed

theorem C1_second_run_needs_nothing_witness:
  "fst (getChangedCharts (sample_cfg (Some ''/ws'') False)
          (sample_env [''charts/foo/Chart.yaml'']
             (\<lambda>p. Inr \<lparr>name = ''foo'', version = ''1.2.0''\<rparr>) (\<lambda>t. True) (\<lambda>t. True)))
     = Inr [foo_1_2_0] \<and>
   fst (getNeededTags
          (sample_env [''charts/foo/Chart.yaml'']
             (\<lambda>p. Inr \<lparr>name = ''foo'', version = ''1.2.0''\<rparr>) (\<lambda>t. True) (\<lambda>t. True))
          [foo_1_2_0]) = Inr [] \<and>
   fst (getNeededBuilds (sample_cfg (Some ''/ws'') False)
          (sample_env [''charts/foo/Chart.yaml'']
             (\<lambda>p. Inr \<lparr>name = ''foo'', version = ''1.2.0''\<rparr>) (\<lambda>t. True) (\<lambda>t. True))
          [foo_1_2_0]) = Inr [] \<and>
   filter is_mutation
     (run (sample_cfg (Some ''/ws'') False)
        (sample_env [''charts/foo/Chart.yaml'']
           (\<lambda>p. Inr \<lparr>name = ''foo'', version = ''1.2.0''\<rparr>) (\<lambda>t. True) (\<lambda>t. True))) = []"
proof -
  let ?cfg = "sample_cfg (Some ''/ws'') False"
  let ?env = "sample_env [''charts/foo/Chart.yaml'']
                (\<lambda>p. Inr \<lparr>name = ''foo'', version = ''1.2.0''\<rparr>) (\<lambda>t. True) (\<lambda>t. True)"
  have h1: "fst (getChangedCharts ?cfg ?env) = Inr [foo_1_2_0]"
    by (simp add: getChangedCharts_def call_def loadChart_def return_io_def startsWith_def
          chart_dir_def defaultChartDir_def sample_cfg_def sample_env_def foo_1_2_0_def)
  have h2: "list_all (\<lambda>c. git_hasTag ?env (versionTag c) = Inr True) [foo_1_2_0]"
    by (simp add: sample_env_def)
  have h3: "list_all (\<lambda>c. octokit_request ?env (owner ?cfg) (repo ?cfg) (versionTag c) = Inr ())
              [foo_1_2_0]"
    by (simp add: sample_env_def)
  from C1_second_run_needs_nothing [OF h1 h2 h3] h1 show ?thesis by simp
qed

text \<open>
  C2. Tag reconciliation is an order-preserving filter: for a tag oracle that answers
  every query, \<open>getNeededTags\<close> returns exactly the records whose version tag the oracle
  reports as absent, in input order, and does nothing but query and log. A record whose
  tag exists is left out of it, and the same record is still in the result of
  \<open>getNeededBuilds\<close> when the release query for its tag does not find a release.
\<close>

theorem C2_getNeededTags_filters_in_order:
  assumes "git_hasTag env = (\<lambda>t. Inr (tagExists t))"
  shows "getNeededTags env changes =
           (Inr (filter (\<lambda>c. \<not> tagExists (versionTag c)) changes),
            concat (map (\<lambda>c. HasTag (versionTag c) #
                      (if tagExists (versionTag c)
                       then [Debug (''Skipping existing tag '' @ versionTag c)]
                       else [])) changes)) \<and>
         (c \<in> set changes \<and> tagExists (versionTag c) \<and>
          isl (octokit_request env (owner cfg) (repo cfg) (versionTag c)) \<longrightarrow>
            (\<exists>nt nb. fst (getNeededTags env changes) = Inr nt \<and>
                     fst (getNeededBuilds cfg env changes) = Inr nb \<and>
                     c \<notin> set nt \<and> c \<in> set nb))"
proof -
  have eq: "getNeededTags env changes =
           (Inr (filter (\<lambda>c. \<not> tagExists (versionTag c)) changes),
            concat (map (\<lambda>c. HasTag (versionTag c) #
                      (if tagExists (versionTag c)
                       then [Debug (''Skipping existing tag '' @ versionTag c)]
                       else [])) changes))"
    using neededTags_loop_filter [where ex = tagExists and env = env and changes = changes and tags = "[]"] assms
    by (simp add: getNeededTags_def list_all_iff)
  show ?thesis
    by (simp add: eq fst_getNeededBuilds)
qed

theorem C2_getNeededTags_filters_in_order_witness:
  "getNeededTags (sample_env [] (\<lambda>p. Inl badYaml) (\<lambda>t. t = ''foo-1.2.0'') (\<lambda>t. False))
     [\<lparr>chart = ''bar'', version = ''0.1.0''\<rparr>, foo_1_2_0, \<lparr>chart = ''baz'', version = ''2.0.0''\<rparr>]
     = (Inr [\<lparr>chart = ''bar'', version = ''0.1.0''\<rparr>, \<lparr>chart = ''baz'', version = ''2.0.0''\<rparr>],
        [HasTag ''bar-0.1.0'', HasTag ''foo-1.2.0'', Debug ''Skipping existing tag foo-1.2.0'',
         HasTag ''baz-2.0.0'']) \<and>
   fst (getNeededBuilds (sample_cfg (Some ''/ws'') False)
          (sample_env [] (\<lambda>p. Inl badYaml) (\<lambda>t. t = ''foo-1.2.0'') (\<lambda>t. False))
          [\<lparr>chart = ''bar'', version = ''0.1.0''\<rparr>, foo_1_2_0, \<lparr>chart = ''baz'', version = ''2.0.0''\<rparr>])
     = Inr [\<lparr>chart = ''bar'', version = ''0.1.0''\<rparr>, foo_1_2_0, \<lparr>chart = ''baz'', version = ''2.0.0''\<rparr>]"
proof -
  let ?env = "sample_env [] (\<lambda>p. Inl badYaml) (\<lambda>t. t = ''foo-1.2.0'') (\<lambda>t. False)"
  have h: "git_hasTag ?env = (\<lambda>t. Inr (t = ''foo-1.2.0''))"
    by (simp add: sample_env_def)
  have r: "isl (octokit_request ?env (owner (sample_cfg (Some ''/ws'') False))
                 (repo (sample_cfg (Some ''/ws'') False)) (versionTag foo_1_2_0))"
    by (simp add: sample_env_def)
  from C2_getNeededTags_filters_in_order [OF h,
      where changes = "[\<lparr>chart = ''bar'', version = ''0.1.0''\<rparr>, foo_1_2_0, \<lparr>chart = ''baz'', version = ''2.0.0''\<rparr>]"
        and c = foo_1_2_0 and cfg = "sample_cfg (Some ''/ws'') False"] r
  show ?thesis
    by (simp add: versionTag_def foo_1_2_0_def fst_getNeededBuilds sample_env_def)
qed

text \<open>
  C3. An error of the release query degrades to "absent": whatever the query throws,
  \<open>releaseExists\<close> returns false, the record is in the result of \<open>getNeededBuilds\<close>, and
  \<open>getNeededBuilds\<close> returns (the error does not abort the run).
\<close>

theorem C3_release_query_error_is_absent:
  assumes "octokit_request env (owner cfg) (repo cfg) (versionTag c) = Inl e"
    and "c \<in> set changes"
  shows "releaseExists cfg env (versionTag c) =
           (Inr False, [Request (owner cfg) (repo cfg) (versionTag c)]) \<and>
         (\<exists>nb. fst (getNeededBuilds cfg env changes) = Inr nb \<and> c \<in> set nb)"
  using assms by (simp add: releaseExists_def fst_getNeededBuilds)

theorem C3_release_query_error_is_absent_witness:
  "octokit_request (sample_env [] (\<lambda>p. Inl badYaml) (\<lambda>t. True) (\<lambda>t. False))
     (owner (sample_cfg (Some ''/ws'') False)) (repo (sample_cfg (Some ''/ws'') False))
     (versionTag foo_1_2_0) = Inl notFound \<and>
   releaseExists (sample_cfg (Some ''/ws'') False)
     (sample_env [] (\<lambda>p. Inl badYaml) (\<lambda>t. True) (\<lambda>t. False)) (versionTag foo_1_2_0)
     = (Inr False, [Request ''acme'' ''charts'' ''foo-1.2.0'']) \<and>
   fst (getNeededBuilds (sample_cfg (Some ''/ws'') False)
     (sample_env [] (\<lambda>p. Inl badYaml) (\<lambda>t. True) (\<lambda>t. False)) [foo_1_2_0]) = Inr [foo_1_2_0]"
proof -
  let ?cfg = "sample_cfg (Some ''/ws'') False"
  let ?env = "sample_env [] (\<lambda>p. Inl badYaml) (\<lambda>t. True) (\<lambda>t. False)"
  have h: "octokit_request ?env (owner ?cfg) (repo ?cfg) (versionTag foo_1_2_0) = Inl notFound"
    by (simp add: sample_env_def)
  have m: "foo_1_2_0 \<in> set [foo_1_2_0]" by simp
  from C3_release_query_error_is_absent [OF h m] h show ?thesis
    by (simp add: versionTag_def foo_1_2_0_def sample_cfg_def fst_getNeededBuilds)
qed

subsection \<open>What the steps before reconciliation emit\<close>

lemma filter_Nil_mono:
  "filter P xs = [] \<Longrightarrow> (\<And>x. Q x \<Longrightarrow> P x) \<Longrightarrow> filter Q xs = []"
  by (auto simp add: filter_empty_conv)

lemma fetchTools_plain:
  "filter (\<lambda>ev. is_query ev \<or> is_mutation ev \<or> is_failure ev) (snd (fetchTools cfg env)) = []"
  by (simp add: fetchTools_def filter_bind_io call_def emit_def split: sum.splits)

lemma prepare_plain:
  "filter (\<lambda>ev. is_query ev \<or> is_mutation ev \<or> is_failure ev) (snd (prepare cfg env)) = []"
  by (simp add: prepare_def filter_bind_io call_def split: sum.splits)

lemma reduce_changes_plain:
  "filter (\<lambda>ev. is_query ev \<or> is_mutation ev \<or> is_failure ev)
     (snd (reduce_changes cfg env changed paths)) = []"
proof (induction paths arbitrary: changed)
  case Nil
  show ?case by (simp add: return_io_def)
next
  case (Cons path paths)
  show ?case
    by (simp add: Cons.IH filter_bind_io loadChart_def call_def split: sum.splits)
qed

lemma getChangedCharts_plain:
  "filter (\<lambda>ev. is_query ev \<or> is_mutation ev \<or> is_failure ev)
     (snd (getChangedCharts cfg env)) = []"
  by (simp add: getChangedCharts_def filter_bind_io call_def reduce_changes_plain
           split: sum.splits)

lemma neededTags_loop_no_failure:
  "filter is_failure (snd (neededTags_loop env tags changes)) = []"
proof (induction changes arbitrary: tags)
  case Nil
  show ?case by (simp add: return_io_def)
next
  case (Cons c changes)
  show ?case
    by (simp add: Cons.IH filter_bind_io call_def emit_def split: sum.splits)
qed

lemma getNeededBuilds_no_failure:
  "filter is_failure (snd (getNeededBuilds cfg env changes)) = []"
  by (simp add: getNeededBuilds_def neededBuilds_loop_filter filter_concat comp_def)

text \<open>The whole of \<open>main\<close> when every call before the two steps returns.\<close>

lemma main_unfold:
  assumes "fst (fetchTools cfg env) = Inr u"
    and "fst (prepare cfg env) = Inr v"
    and "fst (getChangedCharts cfg env) = Inr changes"
    and "fst (getNeededTags env changes) = Inr nt"
    and "fst (getNeededBuilds cfg env changes) = Inr nb"
    and "fst (tagStep cfg env nt) = Inr w"
  shows "main cfg env =
           (fst (buildStep cfg env nb),
            snd (fetchTools cfg env) @ snd (prepare cfg env) @ snd (getChangedCharts cfg env) @
            snd (getNeededTags env changes) @ snd (getNeededBuilds cfg env changes) @
            snd (tagStep cfg env nt) @ snd (buildStep cfg env nb))"
  using assms by (simp add: main_def bind_io_Inr)

text \<open>The trace of \<open>main\<close> when the extractor throws.\<close>

lemma main_extractor_throws:
  assumes "fst (getChangedCharts cfg env) = Inl e"
  shows "(\<exists>e'. fst (main cfg env) = Inl e') \<and>
         filter (\<lambda>ev. is_query ev \<or> is_mutation ev \<or> is_failure ev) (snd (main cfg env)) = []"
proof -
  have 1: "\<exists>e'. fst (main cfg env) = Inl e'"
    using assms by (simp add: main_def fst_bind_io split: sum.splits)
  have 2: "filter (\<lambda>ev. is_query ev \<or> is_mutation ev \<or> is_failure ev) (snd (main cfg env)) = []"
    unfolding main_def
    apply (rule filter_bind_io_Nil [OF fetchTools_plain])
    apply (rule filter_bind_io_Nil [OF prepare_plain])
    apply (rule filter_bind_io_Nil [OF getChangedCharts_plain])
    using assms apply simp
    done
  from 1 2 show ?thesis by simp
qed

lemma reduce_changes_throws:
  assumes "path \<in> set paths" and "selects cfg path"
    and "yaml_load_file env (manifestFile cfg env path) = Inl e"
  shows "\<exists>e' p. p \<in> set paths \<and> selects cfg p \<and>
           yaml_load_file env (manifestFile cfg env p) = Inl e' \<and>
           fst (reduce_changes cfg env changed paths) = Inl e'"
  using assms(1)
proof (induction paths arbitrary: changed)
  case Nil
  then show ?case by simp
next
  case (Cons q paths)
  show ?case
  proof (cases "selects cfg q")
    case False
    with assms(2) Cons.prems have "path \<in> set paths" by auto
    from Cons.IH [OF this, of changed] False show ?thesis
      by (auto simp add: selects_def)
  next
    case True
    show ?thesis
    proof (cases "yaml_load_file env (manifestFile cfg env q)")
      case (Inl e')
      with True show ?thesis
        by (auto simp add: selects_def manifestFile_def loadChart_def call_def
              intro!: exI [of _ e'] exI [of _ q])
    next
      case (Inr m)
      with assms(3) Cons.prems have "path \<in> set paths" by auto
      from Cons.IH [OF this, of "changed @ [\<lparr>chart = name m, version = manifest.version m\<rparr>]"]
      obtain e' p where "p \<in> set paths" "selects cfg p"
        "yaml_load_file env (manifestFile cfg env p) = Inl e'"
        "fst (reduce_changes cfg env (changed @ [\<lparr>chart = name m, version = manifest.version m\<rparr>]) paths)
           = Inl e'"
        by blast
      with True Inr show ?thesis
        by (auto simp add: selects_def manifestFile_def loadChart_def call_def fst_bind_io
              intro!: exI [of _ e'] exI [of _ p])
    qed
  qed
qed

subsection \<open>Claims on the orchestration\<close>

text \<open>
  C6. Dry-run gating: with the dry-run flag set, no run calls the tag creator or invokes
  \<^verbatim>\<open>cr\<close> (package, upload, index), whatever \<open>getNeededTags\<close> and \<open>getNeededBuilds\<close>
  return. The preparation does not look at the flag: once the tools are fetched the
  working directories are cleared and recreated. When every call before the two steps
  returns, the intended actions are logged, each followed by the skip message, \<open>main\<close>
  returns, and with a workspace path the run reports success and never failure.
\<close>

theorem C6_dry_run_calls_no_mutation:
  assumes "dry_run cfg"
  shows "filter is_mutation (run cfg env) = [] \<and>
    (fst (fetchTools cfg env) = Inr () \<longrightarrow>
       (\<exists>rest. snd (main cfg env) =
          snd (fetchTools cfg env) @
          RmRF (js_str (work_dir cfg) @ ''/.cr-release-packages'') # rest)) \<and>
    ((\<forall>p. io_rmRF env p = Inr () \<and> io_mkdirP env p = Inr ()) \<longrightarrow>
       prepare cfg env =
         (Inr (),
          [RmRF (js_str (work_dir cfg) @ ''/.cr-release-packages''),
           MkdirP (js_str (work_dir cfg) @ ''/.cr-release-packages''),
           RmRF (js_str (work_dir cfg) @ ''/.cr-index''),
           MkdirP (js_str (work_dir cfg) @ ''/.cr-index'')])) \<and>
    (fst (fetchTools cfg env) = Inr () \<and> fst (prepare cfg env) = Inr () \<and>
     fst (getChangedCharts cfg env) = Inr changes \<and>
     fst (getNeededTags env changes) = Inr nt \<and>
     fst (getNeededBuilds cfg env changes) = Inr nb \<longrightarrow>
       main cfg env =
         (Inr (),
          snd (fetchTools cfg env) @ snd (prepare cfg env) @ snd (getChangedCharts cfg env) @
          snd (getNeededTags env changes) @ snd (getNeededBuilds cfg env changes) @
          (if nt \<noteq> [] then
             [Info (''Creating tags: '' @ join '', '' (map versionTag nt)),
              Info ''Skipping due to dry_run'']
           else [Info ''No tags to create'']) @
          (if nb \<noteq> [] then
             [Info (''Packaging charts: '' @ join '', '' (map versionTag nb)),
              Info ''Skipping due to dry_run'',
              Info (''Publishing charts: '' @ join '', '' (map versionTag nb)),
              Info ''Skipping due to dry_run'',
              Info ''Generating chart repo index'',
              Info ''Skipping due to dry_run'']
           else [Info ''Nothing to build''])) \<and>
       (\<not> falsy (work_dir cfg) \<longrightarrow>
          filter is_failure (run cfg env) = [] \<and>
          last (run cfg env) = Info ''Action Completed Successfully''))"
proof -
  have quiet: "filter is_mutation (run cfg env) = []"
    unfolding filter_run
    by (rule main_quiet_if) (simp add: tagStep_dry [OF assms] buildStep_dry [OF assms])
  have first: "\<exists>rest. snd (main cfg env) =
          snd (fetchTools cfg env) @
          RmRF (js_str (work_dir cfg) @ ''/.cr-release-packages'') # rest"
    if "fst (fetchTools cfg env) = Inr ()"
    using that by (simp add: main_def snd_bind_io prepare_def call_def)
  have prep: "prepare cfg env =
         (Inr (),
          [RmRF (js_str (work_dir cfg) @ ''/.cr-release-packages''),
           MkdirP (js_str (work_dir cfg) @ ''/.cr-release-packages''),
           RmRF (js_str (work_dir cfg) @ ''/.cr-index''),
           MkdirP (js_str (work_dir cfg) @ ''/.cr-index'')])"
    if "\<forall>p. io_rmRF env p = Inr () \<and> io_mkdirP env p = Inr ()"
    using that by (simp add: prepare_def call_def)
  have whole: "main cfg env =
         (Inr (),
          snd (fetchTools cfg env) @ snd (prepare cfg env) @ snd (getChangedCharts cfg env) @
          snd (getNeededTags env changes) @ snd (getNeededBuilds cfg env changes) @
          (if nt \<noteq> [] then
             [Info (''Creating tags: '' @ join '', '' (map versionTag nt)),
              Info ''Skipping due to dry_run'']
           else [Info ''No tags to create'']) @
          (if nb \<noteq> [] then
             [Info (''Packaging charts: '' @ join '', '' (map versionTag nb)),
              Info ''Skipping due to dry_run'',
              Info (''Publishing charts: '' @ join '', '' (map versionTag nb)),
              Info ''Skipping due to dry_run'',
              Info ''Generating chart repo index'',
              Info ''Skipping due to dry_run'']
           else [Info ''Nothing to build'']))"
    if h: "fst (fetchTools cfg env) = Inr ()" "fst (prepare cfg env) = Inr ()"
      "fst (getChangedCharts cfg env) = Inr changes"
      "fst (getNeededTags env changes) = Inr nt"
      "fst (getNeededBuilds cfg env changes) = Inr nb"
  proof -
    have t: "fst (tagStep cfg env nt) = Inr ()"
      by (simp add: tagStep_dry [OF assms])
    show ?thesis
      unfolding main_unfold [OF h t]
      by (simp only: tagStep_dry [OF assms] buildStep_dry [OF assms] fst_conv snd_conv)
  qed
  have ok: "filter is_failure (run cfg env) = [] \<and>
            last (run cfg env) = Info ''Action Completed Successfully''"
    if h: "fst (fetchTools cfg env) = Inr ()" "fst (prepare cfg env) = Inr ()"
      "fst (getChangedCharts cfg env) = Inr changes"
      "fst (getNeededTags env changes) = Inr nt"
      "fst (getNeededBuilds cfg env changes) = Inr nb"
      and w: "\<not> falsy (work_dir cfg)"
  proof -
    have a: "filter is_failure (snd (fetchTools cfg env)) = []"
      by (rule filter_Nil_mono [OF fetchTools_plain]) simp
    have b: "filter is_failure (snd (prepare cfg env)) = []"
      by (rule filter_Nil_mono [OF prepare_plain]) simp
    have c: "filter is_failure (snd (getChangedCharts cfg env)) = []"
      by (rule filter_Nil_mono [OF getChangedCharts_plain]) simp
    have d: "filter is_failure (snd (getNeededTags env changes)) = []"
      by (simp add: getNeededTags_def neededTags_loop_no_failure)
    note e = getNeededBuilds_no_failure [of cfg env changes]
    show ?thesis
      using w by (simp add: run_def whole [OF h] a b c d e)
  qed
  from quiet first prep whole ok show ?thesis by blast
qed

theorem C6_dry_run_calls_no_mutation_witness:
  "dry_run (sample_cfg (Some ''/ws'') True) \<and>
   run (sample_cfg (Some ''/ws'') True)
     (sample_env [''charts/foo/Chart.yaml'']
        (\<lambda>p. Inr \<lparr>name = ''foo'', version = ''1.2.0''\<rparr>) (\<lambda>t. False) (\<lambda>t. False))
   = [DownloadTool
        ''https://github.com/helm/chart-releaser/releases/download/v3.8.0/chart-releaser_3.8.0_linux_amd64.tar.gz'',
      ExtractTar ''/tmp/cr.tgz'' ''tools/chart-releaser'',
      CacheFile ''tools/chart-releaser/cr'' ''cr'' ''cr'' ''3.8.0'',
      AddPath ''/opt/cr'',
      RmRF ''/ws/.cr-release-packages'', MkdirP ''/ws/.cr-release-packages'',
      RmRF ''/ws/.cr-index'', MkdirP ''/ws/.cr-index'',
      GetLatestChanges, ReadFile ''/ws/charts/foo/Chart.yaml'',
      HasTag ''foo-1.2.0'', Request ''acme'' ''charts'' ''foo-1.2.0'',
      Info ''Creating tags: foo-1.2.0'', Info ''Skipping due to dry_run'',
      Info ''Packaging charts: foo-1.2.0'', Info ''Skipping due to dry_run'',
      Info ''Publishing charts: foo-1.2.0'', Info ''Skipping due to dry_run'',
      Info ''Generating chart repo index'', Info ''Skipping due to dry_run'',
      Info ''Action Completed Successfully''] \<and>
   filter is_mutation
     (run (sample_cfg (Some ''/ws'') True)
        (sample_env [''charts/foo/Chart.yaml'']
           (\<lambda>p. Inr \<lparr>name = ''foo'', version = ''1.2.0''\<rparr>) (\<lambda>t. False) (\<lambda>t. False))) = [] \<and>
   filter is_failure
     (run (sample_cfg (Some ''/ws'') True)
        (sample_env [''charts/foo/Chart.yaml'']
           (\<lambda>p. Inr \<lparr>name = ''foo'', version = ''1.2.0''\<rparr>) (\<lambda>t. False) (\<lambda>t. False))) = []"
proof -
  let ?cfg = "sample_cfg (Some ''/ws'') True"
  let ?env = "sample_env [''charts/foo/Chart.yaml'']
                (\<lambda>p. Inr \<lparr>name = ''foo'', version = ''1.2.0''\<rparr>) (\<lambda>t. False) (\<lambda>t. False)"
  have d: "dry_run ?cfg"
    by (simp add: dry_run_def sample_cfg_def)
  have f: "fetchTools ?cfg ?env =
             (Inr (),
              [DownloadTool
                 ''https://github.com/helm/chart-releaser/releases/download/v3.8.0/chart-releaser_3.8.0_linux_amd64.tar.gz'',
               ExtractTar ''/tmp/cr.tgz'' ''tools/chart-releaser'',
               CacheFile ''tools/chart-releaser/cr'' ''cr'' ''cr'' ''3.8.0'',
               AddPath ''/opt/cr''])"
    by (simp add: fetchTools_def call_def emit_def chartReleaserUrl_def chartReleaserVersion_def
          defaultChartReleaserVersion_def sample_cfg_def sample_env_def)
  have io: "\<forall>p. io_rmRF ?env p = Inr () \<and> io_mkdirP ?env p = Inr ()"
    by (simp add: sample_env_def)
  have w: "work_dir ?cfg = Some ''/ws''"
    by (simp add: sample_cfg_def)
  have c: "getChangedCharts ?cfg ?env =
             (Inr [foo_1_2_0], [GetLatestChanges, ReadFile ''/ws/charts/foo/Chart.yaml''])"
    by (simp add: getChangedCharts_def call_def loadChart_def return_io_def startsWith_def
          chart_dir_def defaultChartDir_def js_str_def sample_cfg_def sample_env_def
          foo_1_2_0_def)
  have t: "getNeededTags ?env [foo_1_2_0] = (Inr [foo_1_2_0], [HasTag ''foo-1.2.0''])"
    by (simp add: getNeededTags_def call_def return_io_def versionTag_def foo_1_2_0_def
          sample_env_def)
  have b: "getNeededBuilds ?cfg ?env [foo_1_2_0] =
             (Inr [foo_1_2_0], [Request ''acme'' ''charts'' ''foo-1.2.0''])"
    by (simp add: getNeededBuilds_def neededBuilds_loop_filter versionTag_def foo_1_2_0_def
          sample_env_def sample_cfg_def)
  note inst = C6_dry_run_calls_no_mutation [OF d, where env = ?env and changes = "[foo_1_2_0]"
      and nt = "[foo_1_2_0]" and nb = "[foo_1_2_0]"]
  from inst io have p: "prepare ?cfg ?env =
      (Inr (), [RmRF ''/ws/.cr-release-packages'', MkdirP ''/ws/.cr-release-packages'',
                RmRF ''/ws/.cr-index'', MkdirP ''/ws/.cr-index''])"
    by (simp add: w js_str_def)
  from inst have m: "main ?cfg ?env =
      (Inr (),
       snd (fetchTools ?cfg ?env) @ snd (prepare ?cfg ?env) @ snd (getChangedCharts ?cfg ?env) @
       snd (getNeededTags ?env [foo_1_2_0]) @ snd (getNeededBuilds ?cfg ?env [foo_1_2_0]) @
       [Info (''Creating tags: '' @ join '', '' (map versionTag [foo_1_2_0])),
        Info ''Skipping due to dry_run''] @
       [Info (''Packaging charts: '' @ join '', '' (map versionTag [foo_1_2_0])),
        Info ''Skipping due to dry_run'',
        Info (''Publishing charts: '' @ join '', '' (map versionTag [foo_1_2_0])),
        Info ''Skipping due to dry_run'',
        Info ''Generating chart repo index'',
        Info ''Skipping due to dry_run''])"
    by (simp add: f p c t b)
  have r: "run ?cfg ?env = snd (main ?cfg ?env) @ [Info ''Action Completed Successfully'']"
    by (simp add: run_def m w falsy_def)
  from inst have q: "filter is_mutation (run ?cfg ?env) = []" by blast
  from inst have ok: "filter is_failure (run ?cfg ?env) = []"
    by (simp add: f p c t b w falsy_def)
  show ?thesis
    apply (intro conjI d q ok)
    apply (simp only: r m f p c t b snd_conv)
    apply (simp add: versionTag_def foo_1_2_0_def)
    done
qed

text \<open>
  C7. A malformed manifest is fatal: when the manifest of a changed path that passes the
  extractor's two tests cannot be loaded, the extractor throws the load error of such a
  path instead of returning records, \<open>main\<close> throws, the run ends with the error report
  and \<^verbatim>\<open>setFailed\<close>, and no existence query, tag creation or \<^verbatim>\<open>cr\<close> invocation
  takes place.
\<close>

theorem C7_malformed_manifest_fails_run:
  assumes "git_getLatestChanges env = Inr paths"
    and "path \<in> set paths"
    and "selects cfg path"
    and "yaml_load_file env (manifestFile cfg env path) = Inl e"
  shows "(\<exists>e' p. p \<in> set paths \<and> selects cfg p \<and>
            yaml_load_file env (manifestFile cfg env p) = Inl e' \<and>
            fst (getChangedCharts cfg env) = Inl e') \<and>
         (\<exists>e'. fst (main cfg env) = Inl e' \<and>
            run cfg env =
              (if falsy (work_dir cfg) then [SetFailed ''Unable to locate workspace!''] else [])
              @ snd (main cfg env)
              @ [LogError (errStackJson e'),
                 SetFailed (''Error during action execution! '' @ errString e')]) \<and>
         filter (\<lambda>ev. is_query ev \<or> is_mutation ev) (snd (main cfg env)) = []"
proof -
  from reduce_changes_throws [OF assms(2,3,4), of "[]"]
  obtain e' p where p: "p \<in> set paths" "selects cfg p"
      "yaml_load_file env (manifestFile cfg env p) = Inl e'"
      and r: "fst (reduce_changes cfg env [] paths) = Inl e'"
    by blast
  have g: "fst (getChangedCharts cfg env) = Inl e'"
    by (simp add: getChangedCharts_def call_def assms(1) r)
  from main_extractor_throws [OF g]
  obtain e'' where m: "fst (main cfg env) = Inl e''"
    and q: "filter (\<lambda>ev. is_query ev \<or> is_mutation ev \<or> is_failure ev) (snd (main cfg env)) = []"
    by blast
  have "filter (\<lambda>ev. is_query ev \<or> is_mutation ev) (snd (main cfg env)) = []"
    by (rule filter_Nil_mono [OF q]) blast
  moreover have "run cfg env =
      (if falsy (work_dir cfg) then [SetFailed ''Unable to locate workspace!''] else [])
      @ snd (main cfg env)
      @ [LogError (errStackJson e''),
         SetFailed (''Error during action execution! '' @ errString e'')]"
    by (simp add: run_def m)
  ultimately show ?thesis using p g m by blast
qed

theorem C7_malformed_manifest_fails_run_witness:
  "git_getLatestChanges
     (sample_env [''charts/foo/Chart.yaml''] (\<lambda>p. Inl badYaml) (\<lambda>t. False) (\<lambda>t. False))
     = Inr [''charts/foo/Chart.yaml''] \<and>
   selects (sample_cfg (Some ''/ws'') False) ''charts/foo/Chart.yaml'' \<and>
   fst (getChangedCharts (sample_cfg (Some ''/ws'') False)
     (sample_env [''charts/foo/Chart.yaml''] (\<lambda>p. Inl badYaml) (\<lambda>t. False) (\<lambda>t. False)))
     = Inl badYaml \<and>
   fst (main (sample_cfg (Some ''/ws'') False)
     (sample_env [''charts/foo/Chart.yaml''] (\<lambda>p. Inl badYaml) (\<lambda>t. False) (\<lambda>t. False)))
     = Inl badYaml \<and>
   filter (\<lambda>ev. is_query ev \<or> is_mutation ev)
     (snd (main (sample_cfg (Some ''/ws'') False)
        (sample_env [''charts/foo/Chart.yaml''] (\<lambda>p. Inl badYaml) (\<lambda>t. False) (\<lambda>t. False))))
     = [] \<and>
   run (sample_cfg (Some ''/ws'') False)
     (sample_env [''charts/foo/Chart.yaml''] (\<lambda>p. Inl badYaml) (\<lambda>t. False) (\<lambda>t. False))
   = [DownloadTool
        ''https://github.com/helm/chart-releaser/releases/download/v3.8.0/chart-releaser_3.8.0_linux_amd64.tar.gz'',
      ExtractTar ''/tmp/cr.tgz'' ''tools/chart-releaser'',
      CacheFile ''tools/chart-releaser/cr'' ''cr'' ''cr'' ''3.8.0'',
      AddPath ''/opt/cr'',
      RmRF ''/ws/.cr-release-packages'', MkdirP ''/ws/.cr-release-packages'',
      RmRF ''/ws/.cr-index'', MkdirP ''/ws/.cr-index'',
      GetLatestChanges, ReadFile ''/ws/charts/foo/Chart.yaml'',
      LogError ''YAMLException at load'',
      SetFailed ''Error during action execution! YAMLException: bad indentation'']"
proof -
  let ?cfg = "sample_cfg (Some ''/ws'') False"
  let ?env = "sample_env [''charts/foo/Chart.yaml''] (\<lambda>p. Inl badYaml) (\<lambda>t. False) (\<lambda>t. False)"
  have h1: "git_getLatestChanges ?env = Inr [''charts/foo/Chart.yaml'']"
    by (simp add: sample_env_def)
  have h2: "''charts/foo/Chart.yaml'' \<in> set [''charts/foo/Chart.yaml'']"
    by simp
  have h3: "selects ?cfg ''charts/foo/Chart.yaml''"
    by (simp add: selects_def startsWith_def chart_dir_def defaultChartDir_def sample_cfg_def)
  have h4: "yaml_load_file ?env (manifestFile ?cfg ?env ''charts/foo/Chart.yaml'') = Inl badYaml"
    by (simp add: sample_env_def)
  have f: "fetchTools ?cfg ?env =
             (Inr (),
              [DownloadTool
                 ''https://github.com/helm/chart-releaser/releases/download/v3.8.0/chart-releaser_3.8.0_linux_amd64.tar.gz'',
               ExtractTar ''/tmp/cr.tgz'' ''tools/chart-releaser'',
               CacheFile ''tools/chart-releaser/cr'' ''cr'' ''cr'' ''3.8.0'',
               AddPath ''/opt/cr''])"
    by (simp add: fetchTools_def call_def emit_def chartReleaserUrl_def chartReleaserVersion_def
          defaultChartReleaserVersion_def sample_cfg_def sample_env_def)
  have p: "prepare ?cfg ?env =
      (Inr (), [RmRF ''/ws/.cr-release-packages'', MkdirP ''/ws/.cr-release-packages'',
                RmRF ''/ws/.cr-index'', MkdirP ''/ws/.cr-index''])"
    by (simp add: prepare_def call_def js_str_def sample_cfg_def sample_env_def)
  have c: "getChangedCharts ?cfg ?env =
             (Inl badYaml, [GetLatestChanges, ReadFile ''/ws/charts/foo/Chart.yaml''])"
    by (simp add: getChangedCharts_def call_def loadChart_def return_io_def startsWith_def
          chart_dir_def defaultChartDir_def js_str_def sample_cfg_def sample_env_def)
  have m: "main ?cfg ?env =
             (Inl badYaml,
              snd (fetchTools ?cfg ?env) @ snd (prepare ?cfg ?env) @
              [GetLatestChanges, ReadFile ''/ws/charts/foo/Chart.yaml''])"
    by (simp add: main_def f p c)
  have w: "\<not> falsy (work_dir ?cfg)"
    by (simp add: falsy_def sample_cfg_def)
  from C7_malformed_manifest_fails_run [OF h1 h2 h3 h4]
  have "\<exists>e'. fst (main ?cfg ?env) = Inl e' \<and>
          run ?cfg ?env = snd (main ?cfg ?env)
            @ [LogError (errStackJson e'),
               SetFailed (''Error during action execution! '' @ errString e')]"
    and q: "filter (\<lambda>ev. is_query ev \<or> is_mutation ev) (snd (main ?cfg ?env)) = []"
    using w by simp_all
  then have r: "run ?cfg ?env = snd (main ?cfg ?env)
            @ [LogError (errStackJson badYaml),
               SetFailed (''Error during action execution! '' @ errString badYaml)]"
    by (auto simp add: m)
  show ?thesis
    apply (intro conjI h1 h3 q)
    apply (simp add: c)
    apply (simp add: m)
    apply (simp only: r m f p snd_conv)
    apply (simp add: badYaml_def)
    done
qed

text \<open>
  C9. The packaging path comes from the manifest: \<open>packageCharts\<close> invokes
  \<^verbatim>\<open>cr package\<close> on the chart directory joined with the \<open>chart\<close> field of each record,
  in order, up to the first invocation that fails; and the extractor fills that field
  with the name the manifest declares, whatever the directory of the changed path is.
\<close>

theorem C9_packaging_path_from_manifest_name:
  "(\<exists>n. filter is_mutation (snd (packageCharts cfg env builds)) =
          map (\<lambda>c. Exec ''cr'' [''package'', chart_dir cfg @ ''/'' @ chart c] (work_dir cfg))
            (take n builds)) \<and>
   (list_all (\<lambda>c. snd (exec_exec env ''cr'' [''package'', chart_dir cfg @ ''/'' @ chart c]
                        (work_dir cfg)) = Inr ()) builds \<longrightarrow>
      filter is_mutation (snd (packageCharts cfg env builds)) =
        map (\<lambda>c. Exec ''cr'' [''package'', chart_dir cfg @ ''/'' @ chart c] (work_dir cfg))
          builds) \<and>
   (selects cfg path \<and> yaml_load_file env (manifestFile cfg env path) = Inr m \<longrightarrow>
      reduce_changes cfg env changed [path] =
        (Inr (changed @ [\<lparr>chart = name m, version = manifest.version m\<rparr>]),
         [ReadFile (manifestFile cfg env path)]))"
proof -
  let ?pk = "\<lambda>c. Exec ''cr'' [''package'', chart_dir cfg @ ''/'' @ chart c] (work_dir cfg)"
  have dbg: "filter is_mutation (map Debug ls) = []" for ls
    by (induction ls) simp_all
  have step: "filter is_mutation (snd (packageCharts cfg env (c # cs))) =
      ?pk c # (case snd (exec_exec env ''cr'' [''package'', chart_dir cfg @ ''/'' @ chart c]
                          (work_dir cfg)) of
                 Inl e \<Rightarrow> []
               | Inr u \<Rightarrow> filter is_mutation (snd (packageCharts cfg env cs)))" for c cs
    by (simp add: filter_bind_io run_cr_def dbg split: sum.splits)
  have 1: "\<exists>n. filter is_mutation (snd (packageCharts cfg env builds)) = map ?pk (take n builds)"
  proof (induction builds)
    case Nil
    show ?case by (simp add: return_io_def)
  next
    case (Cons c cs)
    then obtain n where n: "filter is_mutation (snd (packageCharts cfg env cs)) = map ?pk (take n cs)"
      by blast
    show ?case
    proof (cases "snd (exec_exec env ''cr'' [''package'', chart_dir cfg @ ''/'' @ chart c]
                         (work_dir cfg))")
      case (Inl e)
      then have "filter is_mutation (snd (packageCharts cfg env (c # cs))) = map ?pk (take 1 (c # cs))"
        by (simp add: step del: packageCharts.simps)
      then show ?thesis by blast
    next
      case (Inr u)
      then have "filter is_mutation (snd (packageCharts cfg env (c # cs))) = map ?pk (take (Suc n) (c # cs))"
        by (simp add: step n del: packageCharts.simps)
      then show ?thesis by blast
    qed
  qed
  have 2: "filter is_mutation (snd (packageCharts cfg env builds)) = map ?pk builds"
    if "list_all (\<lambda>c. snd (exec_exec env ''cr'' [''package'', chart_dir cfg @ ''/'' @ chart c]
                        (work_dir cfg)) = Inr ()) builds"
    using that
  proof (induction builds)
    case Nil
    show ?case by (simp add: return_io_def)
  next
    case (Cons c cs)
    then show ?case by (simp add: step del: packageCharts.simps)
  qed
  have 3: "reduce_changes cfg env changed [path] =
        (Inr (changed @ [\<lparr>chart = name m, version = manifest.version m\<rparr>]),
         [ReadFile (manifestFile cfg env path)])"
    if "selects cfg path" "yaml_load_file env (manifestFile cfg env path) = Inr m"
    using that
    by (simp add: selects_def manifestFile_def loadChart_def call_def return_io_def)
  from 1 2 3 show ?thesis by blast
qed

theorem C9_packaging_path_from_manifest_name_witness:
  "selects (sample_cfg (Some ''/ws'') False) ''charts/foo/Chart.yaml'' \<and>
   reduce_changes (sample_cfg (Some ''/ws'') False)
     (sample_env [''charts/foo/Chart.yaml'']
        (\<lambda>p. Inr \<lparr>name = ''bar'', version = ''1.0.0''\<rparr>) (\<lambda>t. False) (\<lambda>t. False))
     [] [''charts/foo/Chart.yaml'']
     = (Inr [\<lparr>chart = ''bar'', version = ''1.0.0''\<rparr>], [ReadFile ''/ws/charts/foo/Chart.yaml'']) \<and>
   filter is_mutation
     (snd (packageCharts (sample_cfg (Some ''/ws'') False)
        (sample_env [''charts/foo/Chart.yaml'']
           (\<lambda>p. Inr \<lparr>name = ''bar'', version = ''1.0.0''\<rparr>) (\<lambda>t. False) (\<lambda>t. False))
        [\<lparr>chart = ''bar'', version = ''1.0.0''\<rparr>]))
     = [Exec ''cr'' [''package'', ''charts/bar''] (Some ''/ws'')]"
proof -
  let ?cfg = "sample_cfg (Some ''/ws'') False"
  let ?env = "sample_env [''charts/foo/Chart.yaml'']
                (\<lambda>p. Inr \<lparr>name = ''bar'', version = ''1.0.0''\<rparr>) (\<lambda>t. False) (\<lambda>t. False)"
  have h1: "selects ?cfg ''charts/foo/Chart.yaml''"
    by (simp add: selects_def startsWith_def chart_dir_def defaultChartDir_def sample_cfg_def)
  have h2: "yaml_load_file ?env (manifestFile ?cfg ?env ''charts/foo/Chart.yaml'')
              = Inr \<lparr>name = ''bar'', version = ''1.0.0''\<rparr>"
    by (simp add: sample_env_def)
  have h3: "list_all (\<lambda>c. snd (exec_exec ?env ''cr'' [''package'', chart_dir ?cfg @ ''/'' @ chart c]
                        (work_dir ?cfg)) = Inr ()) [\<lparr>chart = ''bar'', version = ''1.0.0''\<rparr>]"
    by (simp add: sample_env_def)
  have mf: "manifestFile ?cfg ?env ''charts/foo/Chart.yaml'' = ''/ws/charts/foo/Chart.yaml''"
    by (simp add: manifestFile_def js_str_def sample_cfg_def sample_env_def)
  have cd: "chart_dir ?cfg = ''charts''" "work_dir ?cfg = Some ''/ws''"
    by (simp_all add: chart_dir_def defaultChartDir_def sample_cfg_def)
  from C9_packaging_path_from_manifest_name [where cfg = ?cfg and env = ?env
      and builds = "[\<lparr>chart = ''bar'', version = ''1.0.0''\<rparr>]" and path = "''charts/foo/Chart.yaml''"
      and m = "\<lparr>name = ''bar'', version = ''1.0.0''\<rparr>" and changed = "[]"] h1 h2 h3
  show ?thesis
    by (simp add: mf cd)
qed

subsection \<open>Claims on the version tag and on the extractor's tests\<close>

lemma neededTags_loop_by_tag:
  assumes "map versionTag xs = map versionTag ys" and "map versionTag ta = map versionTag tb"
  shows "snd (neededTags_loop env ta xs) = snd (neededTags_loop env tb ys) \<and>
         map_sum id (map versionTag) (fst (neededTags_loop env ta xs)) =
           map_sum id (map versionTag) (fst (neededTags_loop env tb ys))"
  using assms
proof (induction xs arbitrary: ys ta tb)
  case Nil
  then show ?case by (simp add: return_io_def)
next
  case (Cons x xs)
  from Cons.prems(1) obtain y ys' where ys: "ys = y # ys'"
    and xy: "versionTag x = versionTag y" and rest: "map versionTag xs = map versionTag ys'"
    by (cases ys) auto
  have keep: "map versionTag (ta @ [x]) = map versionTag (tb @ [y])"
    using Cons.prems(2) xy by simp
  note skip = Cons.IH [OF rest Cons.prems(2)]
  note push = Cons.IH [OF rest keep]
  show ?case
  proof (cases "git_hasTag env (versionTag y)")
    case (Inl e)
    then show ?thesis
      by (simp add: ys xy call_def)
  next
    case (Inr has)
    then show ?thesis
      using skip push
      by (simp add: ys xy call_def emit_def fst_bind_io snd_bind_io)
  qed
qed

lemma createTags_by_tag:
  "map versionTag xs = map versionTag ys \<Longrightarrow> createTags env xs = createTags env ys"
proof (induction xs arbitrary: ys)
  case Nil
  then show ?case by simp
next
  case (Cons x xs)
  then obtain y ys' where ys: "ys = y # ys'"
    and xy: "versionTag x = versionTag y" and rest: "map versionTag xs = map versionTag ys'"
    by (cases ys) auto
  from Cons.IH [OF rest] show ?case
    by (simp add: ys xy)
qed

lemma getNeededBuilds_by_tag:
  assumes "map versionTag xs = map versionTag ys"
  shows "snd (getNeededBuilds cfg env xs) = snd (getNeededBuilds cfg env ys) \<and>
         map_sum id (map versionTag) (fst (getNeededBuilds cfg env xs)) =
           map_sum id (map versionTag) (fst (getNeededBuilds cfg env ys))"
proof -
  let ?absent = "\<lambda>t. isl (octokit_request env (owner cfg) (repo cfg) t)"
  let ?ev = "\<lambda>t. Request (owner cfg) (repo cfg) t #
               (if ?absent t then [] else [Debug (''Skipping existing release '' @ t)])"
  have tr: "snd (getNeededBuilds cfg env zs) = concat (map ?ev (map versionTag zs))" for zs
    by (simp add: getNeededBuilds_def neededBuilds_loop_filter comp_def)
  have res: "map_sum id (map versionTag) (fst (getNeededBuilds cfg env zs)) =
               Inr (filter ?absent (map versionTag zs))" for zs
    by (simp add: fst_getNeededBuilds filter_map comp_def)
  show ?thesis
    by (simp only: tr res assms)
qed

lemma createTags_all_succeed:
  "list_all (\<lambda>c. git_createTag env (versionTag c) = Inr ()) xs \<Longrightarrow>
   createTags env xs = (Inr (), map (\<lambda>c. CreateTag (versionTag c)) xs)"
  by (induction xs) (simp_all add: return_io_def call_def)

text \<open>
  C10, as amended. The map from a record to its version tag is not injective: the two
  distinct records foo with version 1-0.0 and foo-1 with version 0.0 both have the tag
  foo-1-0.0. \<open>getNeededTags\<close>, \<open>getNeededBuilds\<close> and \<open>createTags\<close> query and create by
  that string alone: for either record the tag oracle is asked for foo-1-0.0, the
  release query is made for foo-1-0.0, the tag foo-1-0.0 is created, and the record is
  kept or dropped on the answer for that string; on two change sets with the same tags,
  position by position, the three functions make the same calls and their results
  agree up to the tag. Packaging does tell the two records apart: \<open>packageCharts\<close>
  builds its path from the chart name, not from the tag.
\<close>

theorem C10_tag_keyed_steps_conflate:
  "rec_foo \<noteq> rec_foo_1 \<and>
   versionTag rec_foo = ''foo-1-0.0'' \<and>
   versionTag rec_foo_1 = ''foo-1-0.0'' \<and>
   getNeededTags env [rec_foo] =
     (map_sum id (\<lambda>has. if has then [] else [rec_foo]) (git_hasTag env ''foo-1-0.0''),
      HasTag ''foo-1-0.0'' #
        (if git_hasTag env ''foo-1-0.0'' = Inr True
         then [Debug ''Skipping existing tag foo-1-0.0''] else [])) \<and>
   getNeededTags env [rec_foo_1] =
     (map_sum id (\<lambda>has. if has then [] else [rec_foo_1]) (git_hasTag env ''foo-1-0.0''),
      HasTag ''foo-1-0.0'' #
        (if git_hasTag env ''foo-1-0.0'' = Inr True
         then [Debug ''Skipping existing tag foo-1-0.0''] else [])) \<and>
   getNeededBuilds cfg env [rec_foo] =
     (Inr (if isl (octokit_request env (owner cfg) (repo cfg) ''foo-1-0.0'')
           then [rec_foo] else []),
      Request (owner cfg) (repo cfg) ''foo-1-0.0'' #
        (if isl (octokit_request env (owner cfg) (repo cfg) ''foo-1-0.0'') then []
         else [Debug ''Skipping existing release foo-1-0.0''])) \<and>
   getNeededBuilds cfg env [rec_foo_1] =
     (Inr (if isl (octokit_request env (owner cfg) (repo cfg) ''foo-1-0.0'')
           then [rec_foo_1] else []),
      Request (owner cfg) (repo cfg) ''foo-1-0.0'' #
        (if isl (octokit_request env (owner cfg) (repo cfg) ''foo-1-0.0'') then []
         else [Debug ''Skipping existing release foo-1-0.0''])) \<and>
   createTags env [rec_foo] = (git_createTag env ''foo-1-0.0'', [CreateTag ''foo-1-0.0'']) \<and>
   createTags env [rec_foo_1] = (git_createTag env ''foo-1-0.0'', [CreateTag ''foo-1-0.0'']) \<and>
   (list_all (\<lambda>c. git_createTag env (versionTag c) = Inr ()) xs \<longrightarrow>
      createTags env xs = (Inr (), map (\<lambda>c. CreateTag (versionTag c)) xs)) \<and>
   (map versionTag xs = map versionTag ys \<longrightarrow>
      snd (getNeededTags env xs) = snd (getNeededTags env ys) \<and>
      map_sum id (map versionTag) (fst (getNeededTags env xs)) =
        map_sum id (map versionTag) (fst (getNeededTags env ys)) \<and>
      snd (getNeededBuilds cfg env xs) = snd (getNeededBuilds cfg env ys) \<and>
      map_sum id (map versionTag) (fst (getNeededBuilds cfg env xs)) =
        map_sum id (map versionTag) (fst (getNeededBuilds cfg env ys)) \<and>
      createTags env xs = createTags env ys) \<and>
   hd (snd (packageCharts cfg env [rec_foo])) =
     Exec ''cr'' [''package'', chart_dir cfg @ ''/foo''] (work_dir cfg) \<and>
   hd (snd (packageCharts cfg env [rec_foo_1])) =
     Exec ''cr'' [''package'', chart_dir cfg @ ''/foo-1''] (work_dir cfg) \<and>
   snd (packageCharts cfg env [rec_foo]) \<noteq> snd (packageCharts cfg env [rec_foo_1])"
proof -
  have ne: "rec_foo \<noteq> rec_foo_1"
    by (simp add: rec_foo_def rec_foo_1_def)
  have a: "versionTag rec_foo = ''foo-1-0.0''" and b: "versionTag rec_foo_1 = ''foo-1-0.0''"
    by (simp_all add: versionTag_def rec_foo_def rec_foo_1_def)
  have tags: "getNeededTags env [r] =
     (map_sum id (\<lambda>has. if has then [] else [r]) (git_hasTag env ''foo-1-0.0''),
      HasTag ''foo-1-0.0'' #
        (if git_hasTag env ''foo-1-0.0'' = Inr True
         then [Debug ''Skipping existing tag foo-1-0.0''] else []))"
    if "versionTag r = ''foo-1-0.0''" for r
    by (cases "git_hasTag env ''foo-1-0.0''")
       (simp_all add: getNeededTags_def that bind_io_def call_def emit_def return_io_def)
  have builds: "getNeededBuilds cfg env [r] =
     (Inr (if isl (octokit_request env (owner cfg) (repo cfg) ''foo-1-0.0'') then [r] else []),
      Request (owner cfg) (repo cfg) ''foo-1-0.0'' #
        (if isl (octokit_request env (owner cfg) (repo cfg) ''foo-1-0.0'') then []
         else [Debug ''Skipping existing release foo-1-0.0'']))"
    if "versionTag r = ''foo-1-0.0''" for r
    by (simp add: getNeededBuilds_def neededBuilds_loop_filter that)
  have create: "createTags env [r] = (git_createTag env ''foo-1-0.0'', [CreateTag ''foo-1-0.0''])"
    if "versionTag r = ''foo-1-0.0''" for r
    by (cases "git_createTag env ''foo-1-0.0''")
       (simp_all add: that bind_io_def call_def return_io_def)
  have same: "snd (getNeededTags env xs) = snd (getNeededTags env ys) \<and>
      map_sum id (map versionTag) (fst (getNeededTags env xs)) =
        map_sum id (map versionTag) (fst (getNeededTags env ys)) \<and>
      snd (getNeededBuilds cfg env xs) = snd (getNeededBuilds cfg env ys) \<and>
      map_sum id (map versionTag) (fst (getNeededBuilds cfg env xs)) =
        map_sum id (map versionTag) (fst (getNeededBuilds cfg env ys)) \<and>
      createTags env xs = createTags env ys"
    if eq: "map versionTag xs = map versionTag ys"
  proof -
    have "snd (neededTags_loop env [] xs) = snd (neededTags_loop env [] ys) \<and>
          map_sum id (map versionTag) (fst (neededTags_loop env [] xs)) =
            map_sum id (map versionTag) (fst (neededTags_loop env [] ys))"
      by (rule neededTags_loop_by_tag [OF eq]) simp
    with getNeededBuilds_by_tag [OF eq, of cfg env] createTags_by_tag [OF eq, of env]
    show ?thesis by (simp add: getNeededTags_def)
  qed
  have pk: "snd (packageCharts cfg env [r]) =
      Exec ''cr'' [''package'', chart_dir cfg @ ''/'' @ chart r] (work_dir cfg)
        # map Debug (fst (exec_exec env ''cr'' [''package'', chart_dir cfg @ ''/'' @ chart r]
                            (work_dir cfg)))" for r
    by (simp add: snd_bind_io run_cr_def return_io_def split: sum.splits)
  have pa: "hd (snd (packageCharts cfg env [rec_foo])) =
      Exec ''cr'' [''package'', chart_dir cfg @ ''/foo''] (work_dir cfg)"
    unfolding pk by (simp add: rec_foo_def)
  have pb: "hd (snd (packageCharts cfg env [rec_foo_1])) =
      Exec ''cr'' [''package'', chart_dir cfg @ ''/foo-1''] (work_dir cfg)"
    unfolding pk by (simp add: rec_foo_1_def)
  have pne: "snd (packageCharts cfg env [rec_foo]) \<noteq> snd (packageCharts cfg env [rec_foo_1])"
    unfolding pk by (simp add: rec_foo_def rec_foo_1_def)
  show ?thesis
    apply (intro conjI impI ne a b pa pb pne)
    apply (rule tags [OF a])
    apply (rule tags [OF b])
    apply (rule builds [OF a])
    apply (rule builds [OF b])
    apply (rule create [OF a])
    apply (rule create [OF b])
    apply (erule createTags_all_succeed)
    apply (simp_all add: same)
    done
qed

theorem C10_tag_keyed_steps_conflate_witness:
  "map versionTag [rec_foo] = map versionTag [rec_foo_1] \<and>
   list_all (\<lambda>c. git_createTag
        (sample_env [] (\<lambda>p. Inl badYaml) (\<lambda>t. False) (\<lambda>t. False)) (versionTag c) = Inr ())
     [rec_foo] \<and>
   getNeededTags (sample_env [] (\<lambda>p. Inl badYaml) (\<lambda>t. False) (\<lambda>t. False)) [rec_foo]
     = (Inr [rec_foo], [HasTag ''foo-1-0.0'']) \<and>
   getNeededTags (sample_env [] (\<lambda>p. Inl badYaml) (\<lambda>t. False) (\<lambda>t. False)) [rec_foo_1]
     = (Inr [rec_foo_1], [HasTag ''foo-1-0.0'']) \<and>
   getNeededBuilds (sample_cfg (Some ''/ws'') False)
       (sample_env [] (\<lambda>p. Inl badYaml) (\<lambda>t. False) (\<lambda>t. False)) [rec_foo]
     = (Inr [rec_foo], [Request ''acme'' ''charts'' ''foo-1-0.0'']) \<and>
   getNeededBuilds (sample_cfg (Some ''/ws'') False)
       (sample_env [] (\<lambda>p. Inl badYaml) (\<lambda>t. False) (\<lambda>t. False)) [rec_foo_1]
     = (Inr [rec_foo_1], [Request ''acme'' ''charts'' ''foo-1-0.0'']) \<and>
   createTags (sample_env [] (\<lambda>p. Inl badYaml) (\<lambda>t. False) (\<lambda>t. False)) [rec_foo]
     = (Inr (), [CreateTag ''foo-1-0.0'']) \<and>
   createTags (sample_env [] (\<lambda>p. Inl badYaml) (\<lambda>t. False) (\<lambda>t. False)) [rec_foo_1]
     = (Inr (), [CreateTag ''foo-1-0.0'']) \<and>
   hd (snd (packageCharts (sample_cfg (Some ''/ws'') False)
       (sample_env [] (\<lambda>p. Inl badYaml) (\<lambda>t. False) (\<lambda>t. False)) [rec_foo]))
     = Exec ''cr'' [''package'', ''charts/foo''] (Some ''/ws'') \<and>
   hd (snd (packageCharts (sample_cfg (Some ''/ws'') False)
       (sample_env [] (\<lambda>p. Inl badYaml) (\<lambda>t. False) (\<lambda>t. False)) [rec_foo_1]))
     = Exec ''cr'' [''package'', ''charts/foo-1''] (Some ''/ws'')"
proof -
  let ?cfg = "sample_cfg (Some ''/ws'') False"
  let ?env = "sample_env [] (\<lambda>p. Inl badYaml) (\<lambda>t. False) (\<lambda>t. False)"
  note inst = C10_tag_keyed_steps_conflate [where env = ?env and cfg = ?cfg
      and xs = "[rec_foo]" and ys = "[rec_foo_1]"]
  from inst have a: "versionTag rec_foo = ''foo-1-0.0''"
    and b: "versionTag rec_foo_1 = ''foo-1-0.0''"
    by blast+
  have h1: "map versionTag [rec_foo] = map versionTag [rec_foo_1]"
    by (simp add: a b)
  have o: "git_hasTag ?env ''foo-1-0.0'' = Inr False"
    "git_createTag ?env ''foo-1-0.0'' = Inr ()"
    "isl (octokit_request ?env ''acme'' ''charts'' ''foo-1-0.0'')"
    by (simp_all add: sample_env_def)
  have c: "owner ?cfg = ''acme''" "repo ?cfg = ''charts''" "chart_dir ?cfg = ''charts''"
    "work_dir ?cfg = Some ''/ws''"
    by (simp_all add: sample_cfg_def chart_dir_def defaultChartDir_def)
  have h2: "list_all (\<lambda>c. git_createTag ?env (versionTag c) = Inr ()) [rec_foo]"
    by (simp add: a o)
  from inst have t1: "getNeededTags ?env [rec_foo] =
     (map_sum id (\<lambda>has. if has then [] else [rec_foo]) (git_hasTag ?env ''foo-1-0.0''),
      HasTag ''foo-1-0.0'' #
        (if git_hasTag ?env ''foo-1-0.0'' = Inr True
         then [Debug ''Skipping existing tag foo-1-0.0''] else []))"
    by blast
  from inst have t2: "getNeededTags ?env [rec_foo_1] =
     (map_sum id (\<lambda>has. if has then [] else [rec_foo_1]) (git_hasTag ?env ''foo-1-0.0''),
      HasTag ''foo-1-0.0'' #
        (if git_hasTag ?env ''foo-1-0.0'' = Inr True
         then [Debug ''Skipping existing tag foo-1-0.0''] else []))"
    by blast
  from inst have b1: "getNeededBuilds ?cfg ?env [rec_foo] =
     (Inr (if isl (octokit_request ?env (owner ?cfg) (repo ?cfg) ''foo-1-0.0'')
           then [rec_foo] else []),
      Request (owner ?cfg) (repo ?cfg) ''foo-1-0.0'' #
        (if isl (octokit_request ?env (owner ?cfg) (repo ?cfg) ''foo-1-0.0'') then []
         else [Debug ''Skipping existing release foo-1-0.0'']))"
    by blast
  from inst have b2: "getNeededBuilds ?cfg ?env [rec_foo_1] =
     (Inr (if isl (octokit_request ?env (owner ?cfg) (repo ?cfg) ''foo-1-0.0'')
           then [rec_foo_1] else []),
      Request (owner ?cfg) (repo ?cfg) ''foo-1-0.0'' #
        (if isl (octokit_request ?env (owner ?cfg) (repo ?cfg) ''foo-1-0.0'') then []
         else [Debug ''Skipping existing release foo-1-0.0'']))"
    by blast
  from inst have c1: "createTags ?env [rec_foo] =
      (git_createTag ?env ''foo-1-0.0'', [CreateTag ''foo-1-0.0''])"
    and c2: "createTags ?env [rec_foo_1] =
      (git_createTag ?env ''foo-1-0.0'', [CreateTag ''foo-1-0.0''])"
    by blast+
  from inst have p1: "hd (snd (packageCharts ?cfg ?env [rec_foo])) =
      Exec ''cr'' [''package'', chart_dir ?cfg @ ''/foo''] (work_dir ?cfg)"
    and p2: "hd (snd (packageCharts ?cfg ?env [rec_foo_1])) =
      Exec ''cr'' [''package'', chart_dir ?cfg @ ''/foo-1''] (work_dir ?cfg)"
    by blast+
  show ?thesis
    apply (intro conjI h1 h2)
    apply (simp add: t1 o)
    apply (simp add: t2 o)
    apply (simp add: b1 o c)
    apply (simp add: b2 o c)
    apply (simp only: c1 o)
    apply (simp only: c2 o)
    apply (simp only: p1 c, simp)
    apply (simp only: p2 c, simp)
    done
qed

text \<open>
  C10 as first stated says that nothing in the pipeline tells the two records apart.
  The packaging step does: it is invoked on \<open>charts/foo\<close> for the one and on
  \<open>charts/foo-1\<close> for the other, although their tags are the same string.
\<close>

theorem C10_packaging_tells_records_apart:
  "rec_foo \<noteq> rec_foo_1 \<and>
   versionTag rec_foo = versionTag rec_foo_1 \<and>
   packageCharts (sample_cfg (Some ''/ws'') False)
       (sample_env [] (\<lambda>p. Inl badYaml) (\<lambda>t. False) (\<lambda>t. False)) [rec_foo]
     = (Inr (), [Exec ''cr'' [''package'', ''charts/foo''] (Some ''/ws'')]) \<and>
   packageCharts (sample_cfg (Some ''/ws'') False)
       (sample_env [] (\<lambda>p. Inl badYaml) (\<lambda>t. False) (\<lambda>t. False)) [rec_foo_1]
     = (Inr (), [Exec ''cr'' [''package'', ''charts/foo-1''] (Some ''/ws'')]) \<and>
   (\<forall>cfg env. snd (packageCharts cfg env [rec_foo]) \<noteq> snd (packageCharts cfg env [rec_foo_1]))"
proof -
  have pk: "snd (packageCharts cfg env [r]) =
      Exec ''cr'' [''package'', chart_dir cfg @ ''/'' @ chart r] (work_dir cfg)
        # map Debug (fst (exec_exec env ''cr'' [''package'', chart_dir cfg @ ''/'' @ chart r]
                            (work_dir cfg)))" for cfg env r
    by (simp add: snd_bind_io run_cr_def return_io_def split: sum.splits)
  have "\<forall>cfg env. snd (packageCharts cfg env [rec_foo]) \<noteq> snd (packageCharts cfg env [rec_foo_1])"
    unfolding pk by (simp add: rec_foo_def rec_foo_1_def)
  then show ?thesis
    by (simp add: rec_foo_def rec_foo_1_def versionTag_def run_cr_def return_io_def
          chart_dir_def defaultChartDir_def sample_cfg_def sample_env_def)
qed

text \<open>
  C4 asks that a nested file never yields a record. The test of line 69 joins the
  segments below the chart directory with the empty string, so the file \<open>.yaml\<close> in a
  directory \<open>Chart\<close> of the chart passes it: the extractor reads that file as a manifest
  and emits a record.
\<close>

theorem C4_nested_file_yields_record:
  "split_slash ''charts/foo/Chart/.yaml'' = [''charts'', ''foo'', ''Chart'', ''.yaml''] \<and>
   selects (sample_cfg (Some ''/ws'') False) ''charts/foo/Chart/.yaml'' \<and>
   getChangedCharts (sample_cfg (Some ''/ws'') False)
     (sample_env [''charts/foo/Chart/.yaml'']
        (\<lambda>p. Inr \<lparr>name = ''foo'', version = ''1.2.0''\<rparr>) (\<lambda>t. False) (\<lambda>t. False))
   = (Inr [\<lparr>chart = ''foo'', version = ''1.2.0''\<rparr>],
      [GetLatestChanges, ReadFile ''/ws/charts/foo/Chart/.yaml''])"
  by (simp add: selects_def getChangedCharts_def call_def loadChart_def return_io_def
        startsWith_def chart_dir_def defaultChartDir_def js_str_def sample_cfg_def
        sample_env_def)

text \<open>
  C5 asks that a path outside the chart directory never yields a record. The test of
  line 67 compares string prefixes, so a manifest in the sibling directory
  \<open>charts-old\<close> passes it when the chart directory is \<open>charts\<close>.
\<close>

theorem C5_prefix_sibling_yields_record:
  "startsWith ''charts-old/foo/Chart.yaml'' (chart_dir (sample_cfg (Some ''/ws'') False)) \<and>
   hd (split_slash ''charts-old/foo/Chart.yaml'') \<noteq> chart_dir (sample_cfg (Some ''/ws'') False) \<and>
   getChangedCharts (sample_cfg (Some ''/ws'') False)
     (sample_env [''charts-old/foo/Chart.yaml'']
        (\<lambda>p. Inr \<lparr>name = ''foo'', version = ''1.2.0''\<rparr>) (\<lambda>t. False) (\<lambda>t. False))
   = (Inr [\<lparr>chart = ''foo'', version = ''1.2.0''\<rparr>],
      [GetLatestChanges, ReadFile ''/ws/charts-old/foo/Chart.yaml''])"
  by (simp add: getChangedCharts_def call_def loadChart_def return_io_def
        startsWith_def chart_dir_def defaultChartDir_def js_str_def sample_cfg_def
        sample_env_def)

text \<open>
  C8 asks that nothing is done when the workspace path is missing. The check of line 29
  only reports the failure; \<open>main\<close> is still called, fetches the tool, clears and
  creates directories under the path \<open>undefined\<close>, asks for the changes, and the run
  ends with the success message.
\<close>

theorem C8_missing_workspace_still_runs_main:
  "run (sample_cfg None False)
     (sample_env [] (\<lambda>p. Inl badYaml) (\<lambda>t. False) (\<lambda>t. False))
   = [SetFailed ''Unable to locate workspace!'',
      DownloadTool
        ''https://github.com/helm/chart-releaser/releases/download/v3.8.0/chart-releaser_3.8.0_linux_amd64.tar.gz'',
      ExtractTar ''/tmp/cr.tgz'' ''tools/chart-releaser'',
      CacheFile ''tools/chart-releaser/cr'' ''cr'' ''cr'' ''3.8.0'',
      AddPath ''/opt/cr'',
      RmRF ''undefined/.cr-release-packages'', MkdirP ''undefined/.cr-release-packages'',
      RmRF ''undefined/.cr-index'', MkdirP ''undefined/.cr-index'',
      GetLatestChanges,
      Info ''No tags to create'', Info ''Nothing to build'',
      Info ''Action Completed Successfully'']"
proof -
  let ?cfg = "sample_cfg None False"
  let ?env = "sample_env [] (\<lambda>p. Inl badYaml) (\<lambda>t. False) (\<lambda>t. False)"
  have f: "fetchTools ?cfg ?env =
             (Inr (),
              [DownloadTool
                 ''https://github.com/helm/chart-releaser/releases/download/v3.8.0/chart-releaser_3.8.0_linux_amd64.tar.gz'',
               ExtractTar ''/tmp/cr.tgz'' ''tools/chart-releaser'',
               CacheFile ''tools/chart-releaser/cr'' ''cr'' ''cr'' ''3.8.0'',
               AddPath ''/opt/cr''])"
    by (simp add: fetchTools_def call_def emit_def chartReleaserUrl_def chartReleaserVersion_def
          defaultChartReleaserVersion_def sample_cfg_def sample_env_def)
  have p: "prepare ?cfg ?env =
      (Inr (), [RmRF ''undefined/.cr-release-packages'', MkdirP ''undefined/.cr-release-packages'',
                RmRF ''undefined/.cr-index'', MkdirP ''undefined/.cr-index''])"
    by (simp add: prepare_def call_def js_str_def sample_cfg_def sample_env_def)
  have c: "getChangedCharts ?cfg ?env = (Inr [], [GetLatestChanges])"
    by (simp add: getChangedCharts_def call_def return_io_def sample_env_def)
  have m: "main ?cfg ?env =
             (Inr (),
              snd (fetchTools ?cfg ?env) @ snd (prepare ?cfg ?env) @
              [GetLatestChanges, Info ''No tags to create'', Info ''Nothing to build''])"
    by (simp add: main_def f p c getNeededTags_def getNeededBuilds_def return_io_def
          tagStep_Nil buildStep_Nil)
  have w: "falsy (work_dir ?cfg)"
    by (simp add: falsy_def sample_cfg_def)
  show ?thesis
    by (simp add: run_def w m f p)
qed

end
